theory Spec2Isabelle
  imports Main
begin

unbundle bit_operations_syntax

section \<open>The buffered file writer of package fileutils\<close>

text \<open>
  The development embeds the type \<open>File\<close> of package \<open>fileutils\<close> and its methods.
  A Go \<open>string\<close> and a \<open>[]byte\<close> are both byte sequences, so both are \<open>string\<close> here
  and the conversion \<open>[]byte(s)\<close> is the identity. Go's \<open>int\<close> is modelled by \<open>int\<close>:
  the code only compares and stores these numbers, it never does arithmetic on them.
\<close>

type_synonym bytes = string

subsection \<open>The operating system and the buffered adapter\<close>

text \<open>
  \<open>os.OpenFile\<close>, \<open>bufio.Writer\<close> and \<open>os.File.Close\<close> belong to Go's standard
  library. They are kept abstract: the world holds the log of every call made so far
  together with its result, and a function \<open>respond\<close> that decides, from that log and
  the call, whether the call fails. Any deterministic behaviour of the sink is one such
  function. An opened file is named by the position of its open call in the log, and the
  adapter \<open>bufio.NewWriter(h)\<close> by the file it wraps.
\<close>

datatype error =
    OSError string
  | FailedToOpen string int error
  | FailedToInitialize string error
  | FileClosed string
  | FailedToWrite string error
  | FailedToFlush string error
  | FailedToClose string error

datatype os_File = OsFile nat

datatype bufio_Writer = NewWriter os_File

datatype io_call =
    OpenFile string int int
  | WriterWrite bufio_Writer bytes
  | WriterFlush bufio_Writer
  | FileClose os_File

type_synonym event = "io_call \<times> error option"

record world =
  respond :: "event list \<Rightarrow> io_call \<Rightarrow> error option"
  log :: "event list"

definition call :: "io_call \<Rightarrow> world \<Rightarrow> error option \<times> world" where
  "call c w = (let r = respond w (log w) c in (r, w\<lparr>log := log w @ [(c, r)]\<rparr>))"

definition os_OpenFile :: "string \<Rightarrow> int \<Rightarrow> int \<Rightarrow> world \<Rightarrow> (error + os_File) \<times> world" where
  "os_OpenFile name flag perm w =
     (case call (OpenFile name flag perm) w of
        (Some e, w') \<Rightarrow> (Inl e, w')
      | (None, w') \<Rightarrow> (Inr (OsFile (length (log w))), w'))"

definition bufio_Write :: "bufio_Writer \<Rightarrow> bytes \<Rightarrow> world \<Rightarrow> error option \<times> world" where
  "bufio_Write bw data w = call (WriterWrite bw data) w"

definition bufio_Flush :: "bufio_Writer \<Rightarrow> world \<Rightarrow> error option \<times> world" where
  "bufio_Flush bw w = call (WriterFlush bw) w"

definition os_File_Close :: "os_File \<Rightarrow> world \<Rightarrow> error option \<times> world" where
  "os_File_Close h w = call (FileClose h) w"

text \<open>The flags of package \<open>os\<close>, with the values they have on Linux.\<close>

definition O_WRONLY :: int where "O_WRONLY = 1"
definition O_CREATE :: int where "O_CREATE = 64"
definition O_EXCL :: int where "O_EXCL = 128"
definition O_TRUNC :: int where "O_TRUNC = 512"
definition O_APPEND :: int where "O_APPEND = 1024"

definition ModeCreate :: int where
  "ModeCreate = O_WRONLY OR O_CREATE OR O_EXCL"

definition ModeOverwrite :: int where
  "ModeOverwrite = O_WRONLY OR O_CREATE OR O_TRUNC"

definition ModeAppend :: int where
  "ModeAppend = O_WRONLY OR O_CREATE OR O_APPEND"

subsection \<open>Outcomes of a call\<close>

text \<open>
  A method either returns, or never returns because it waits for a lock that nobody
  will release, or panics (a call through a nil function value, a nil pointer). The
  model follows one goroutine; no other goroutine runs. A call that blocks or panics
  yields no state: the model stops there.
\<close>

datatype 'a run = Done 'a | Blocked | Panicked

fun and_then :: "'a run \<Rightarrow> ('a \<Rightarrow> 'b run) \<Rightarrow> 'b run" where
  "and_then (Done x) k = k x"
| "and_then Blocked k = Blocked"
| "and_then Panicked k = Panicked"

subsection \<open>The writer\<close>

text \<open>
  \<open>sync.RWMutex\<close> is not reentrant: \<open>Lock\<close> on a mutex that is held, also by the
  caller itself, waits until it is released.
\<close>

datatype RWMutex = Unlocked | WLocked | RLocked nat

record FileOptions =
  Mode :: int
  Encode :: bool
  Lazy :: bool
  BufferSize :: int
  Handler :: "(string \<Rightarrow> string) option"
  Encoder :: "(bytes \<Rightarrow> bytes) option"

record File =
  filename :: string
  mode :: int
  encode :: bool
  lazy :: bool
  bufferSize :: int
  initialized :: bool
  closed :: bool
  fileHandler :: "os_File option"
  fileWriter :: "bufio_Writer option"
  buf :: bytes
  mutex :: RWMutex
  Handler :: "(string \<Rightarrow> string) option"
  Encoder :: "(bytes \<Rightarrow> bytes) option"

definition mutex_Lock :: "File \<Rightarrow> File run" where
  "mutex_Lock f = (case mutex f of Unlocked \<Rightarrow> Done (f\<lparr>mutex := WLocked\<rparr>) | _ \<Rightarrow> Blocked)"

definition mutex_Unlock :: "File \<Rightarrow> File run" where
  "mutex_Unlock f = (case mutex f of WLocked \<Rightarrow> Done (f\<lparr>mutex := Unlocked\<rparr>) | _ \<Rightarrow> Panicked)"

definition mutex_RLock :: "File \<Rightarrow> File run" where
  "mutex_RLock f =
     (case mutex f of
        Unlocked \<Rightarrow> Done (f\<lparr>mutex := RLocked 1\<rparr>)
      | RLocked n \<Rightarrow> Done (f\<lparr>mutex := RLocked (Suc n)\<rparr>)
      | WLocked \<Rightarrow> Blocked)"

definition mutex_RUnlock :: "File \<Rightarrow> File run" where
  "mutex_RUnlock f =
     (case mutex f of
        RLocked n \<Rightarrow> (if n \<le> 1 then Done (f\<lparr>mutex := Unlocked\<rparr>) else Done (f\<lparr>mutex := RLocked (n - 1)\<rparr>))
      | _ \<Rightarrow> Panicked)"

text \<open>
  \<open>f.mutex.Lock(); defer f.mutex.Unlock()\<close> around a method body that works on the
  writer and the world.
\<close>

definition with_Lock ::
  "(File \<Rightarrow> world \<Rightarrow> ('a \<times> File \<times> world) run) \<Rightarrow> File \<Rightarrow> world \<Rightarrow> ('a \<times> File \<times> world) run" where
  "with_Lock body f w =
     and_then (mutex_Lock f) (\<lambda>f1.
     and_then (body f1 w) (\<lambda>(r, f2, w2).
     and_then (mutex_Unlock f2) (\<lambda>f3. Done (r, f3, w2))))"

definition init_body :: "File \<Rightarrow> world \<Rightarrow> (error option \<times> File \<times> world) run" where
  "init_body f w =
     (if initialized f then Done (None, f, w)
      else
        (case os_OpenFile (filename f) (mode f) 420 w of
           (Inl err, w1) \<Rightarrow>
             Done (Some (FailedToOpen (filename f) (mode f) err), f\<lparr>fileHandler := None\<rparr>, w1)
         | (Inr h, w1) \<Rightarrow>
             Done (None,
                   f\<lparr>fileHandler := Some h, fileWriter := Some (NewWriter h), initialized := True\<rparr>,
                   w1)))"

definition init :: "File \<Rightarrow> world \<Rightarrow> (error option \<times> File \<times> world) run" where
  "init f w = with_Lock init_body f w"

text \<open>\<open>flush\<close> takes no lock: its callers hold it.\<close>

definition flush :: "File \<Rightarrow> world \<Rightarrow> (error option \<times> File \<times> world) run" where
  "flush f w =
     (if fileHandler f = None \<or> length (buf f) = 0 then Done (None, f, w)
      else
        (case (if encode f then map_option (\<lambda>enc. enc (buf f)) (Encoder f) else Some (buf f)) of
           None \<Rightarrow> Panicked
         | Some data \<Rightarrow>
             (case fileWriter f of
                None \<Rightarrow> Panicked
              | Some bw \<Rightarrow>
                  (case bufio_Write bw data w of
                     (Some err, w1) \<Rightarrow> Done (Some (FailedToWrite (filename f) err), f, w1)
                   | (None, w1) \<Rightarrow>
                       (case bufio_Flush bw w1 of
                          (Some err, w2) \<Rightarrow>
                            Done (Some (FailedToFlush (filename f) err), f\<lparr>buf := []\<rparr>, w2)
                        | (None, w2) \<Rightarrow> Done (None, f\<lparr>buf := []\<rparr>, w2))))))"

text \<open>
  \<open>Write\<close>. \<open>bytes.Buffer.Write\<close> appends and always returns a nil error, so the
  branch on its error is never taken.
\<close>

definition Write_body :: "bytes \<Rightarrow> File \<Rightarrow> world \<Rightarrow> ((int \<times> error option) \<times> File \<times> world) run" where
  "Write_body p f w =
     (if closed f then Done ((0, Some (FileClosed (filename f))), f, w)
      else
        and_then (if \<not> initialized f then init f w else Done (None, f, w)) (\<lambda>(ierr, f1, w1).
          (case ierr of
             Some err \<Rightarrow> Done ((0, Some err), f1, w1)
           | None \<Rightarrow>
               (let f2 = f1\<lparr>buf := buf f1 @ p\<rparr>; n = int (length p) in
                if int (length (buf f2)) \<ge> bufferSize f2 then
                  and_then (flush f2 w1) (\<lambda>(ferr, f3, w3).
                    (case ferr of
                       Some err \<Rightarrow> Done ((n, Some err), f3, w3)
                     | None \<Rightarrow> Done ((int (length p), None), f3, w3)))
                else Done ((int (length p), None), f2, w1)))))"

definition Write :: "File \<Rightarrow> bytes \<Rightarrow> world \<Rightarrow> ((int \<times> error option) \<times> File \<times> world) run" where
  "Write f p w = with_Lock (Write_body p) f w"

definition WriteString :: "File \<Rightarrow> string \<Rightarrow> world \<Rightarrow> ((int \<times> error option) \<times> File \<times> world) run" where
  "WriteString f s w = Write f s w"

text \<open>The wrappers below drop the count and return the error only.\<close>

definition only_err ::
  "((int \<times> error option) \<times> File \<times> world) run \<Rightarrow> (error option \<times> File \<times> world) run" where
  "only_err r = and_then r (\<lambda>((n, err), f, w). Done (err, f, w))"

definition SafeWrite :: "File \<Rightarrow> string \<Rightarrow> world \<Rightarrow> (error option \<times> File \<times> world) run" where
  "SafeWrite f s w =
     (case Handler f of
        None \<Rightarrow> Panicked
      | Some h \<Rightarrow> (let processed = h s in only_err (WriteString f processed w)))"

definition WriteLine :: "File \<Rightarrow> string \<Rightarrow> world \<Rightarrow> (error option \<times> File \<times> world) run" where
  "WriteLine f s w = only_err (WriteString f (s @ [CHR 0x0A]) w)"

definition WriteBytes :: "File \<Rightarrow> bytes \<Rightarrow> world \<Rightarrow> (error option \<times> File \<times> world) run" where
  "WriteBytes f bs w = only_err (Write f bs w)"

definition Sync :: "File \<Rightarrow> world \<Rightarrow> (error option \<times> File \<times> world) run" where
  "Sync f w = with_Lock flush f w"

definition SyncWrite :: "File \<Rightarrow> string \<Rightarrow> world \<Rightarrow> (error option \<times> File \<times> world) run" where
  "SyncWrite f s w =
     and_then (SafeWrite f s w) (\<lambda>(err, f1, w1).
       (case err of Some e \<Rightarrow> Done (Some e, f1, w1) | None \<Rightarrow> Sync f1 w1))"

definition Close_body :: "File \<Rightarrow> world \<Rightarrow> (error option \<times> File \<times> world) run" where
  "Close_body f w =
     (if closed f then Done (None, f, w)
      else
        and_then (flush f w) (\<lambda>(ferr, f1, w1).
          (case ferr of
             Some err \<Rightarrow> Done (Some err, f1, w1)
           | None \<Rightarrow>
               (case fileHandler f1 of
                  None \<Rightarrow> Done (None, f1\<lparr>closed := True\<rparr>, w1)
                | Some h \<Rightarrow>
                    (case os_File_Close h w1 of
                       (Some err, w2) \<Rightarrow> Done (Some (FailedToClose (filename f1) err), f1, w2)
                     | (None, w2) \<Rightarrow> Done (None, f1\<lparr>closed := True\<rparr>, w2))))))"

definition Close :: "File \<Rightarrow> world \<Rightarrow> (error option \<times> File \<times> world) run" where
  "Close f w = with_Lock Close_body f w"

subsection \<open>Constructors\<close>

text \<open>
  \<open>en.MustDeflateDeCompress\<close> lives in package \<open>encode\<close>; the constructors take it
  as the parameter \<open>dec\<close>. A function value that may be nil is an \<open>option\<close>.
\<close>

definition NewFile ::
  "(bytes \<Rightarrow> bytes) \<Rightarrow> string \<Rightarrow> int \<Rightarrow> bool \<Rightarrow> bool \<Rightarrow> world \<Rightarrow> ((error + File) \<times> world) run" where
  "NewFile dec name md enc lz w =
     (let file = \<lparr>filename = name, mode = md, encode = enc, lazy = lz, bufferSize = 4096,
                   initialized = False, closed = False, fileHandler = None, fileWriter = None,
                   buf = [], mutex = Unlocked, Handler = Some (\<lambda>s. s), Encoder = Some dec\<rparr>
      in if \<not> lz then
           and_then (init file w) (\<lambda>(ierr, f1, w1).
             (case ierr of
                Some err \<Rightarrow> Done (Inl (FailedToInitialize name err), w1)
              | None \<Rightarrow> Done (Inr f1, w1)))
         else Done (Inr file, w))"

definition DefaultFileOptions :: "(bytes \<Rightarrow> bytes) \<Rightarrow> FileOptions" where
  "DefaultFileOptions dec =
     \<lparr>Mode = ModeAppend, Encode = False, Lazy = False, BufferSize = 4096,
      Handler = Some (\<lambda>s. s), Encoder = Some dec\<rparr>"

definition NewFileWithOptions ::
  "(bytes \<Rightarrow> bytes) \<Rightarrow> string \<Rightarrow> FileOptions option \<Rightarrow> world \<Rightarrow> ((error + File) \<times> world) run" where
  "NewFileWithOptions dec name opts0 w =
     (let opts = (case opts0 of None \<Rightarrow> DefaultFileOptions dec | Some o1 \<Rightarrow> o1);
          file = \<lparr>filename = name, mode = Mode opts, encode = Encode opts, lazy = Lazy opts,
                   bufferSize = BufferSize opts, initialized = False, closed = False,
                   fileHandler = None, fileWriter = None, buf = [], mutex = Unlocked,
                   Handler = FileOptions.Handler opts, Encoder = FileOptions.Encoder opts\<rparr>
      in if \<not> Lazy opts then
           and_then (init file w) (\<lambda>(ierr, f1, w1).
             (case ierr of
                Some err \<Rightarrow> Done (Inl (FailedToInitialize name err), w1)
              | None \<Rightarrow> Done (Inr f1, w1)))
         else Done (Inr file, w))"

subsection \<open>Accessors and setters\<close>

definition IsInitialized :: "File \<Rightarrow> (bool \<times> File) run" where
  "IsInitialized f =
     and_then (mutex_RLock f) (\<lambda>f1. and_then (mutex_RUnlock f1) (\<lambda>f2. Done (initialized f1, f2)))"

definition IsClosed :: "File \<Rightarrow> (bool \<times> File) run" where
  "IsClosed f =
     and_then (mutex_RLock f) (\<lambda>f1. and_then (mutex_RUnlock f1) (\<lambda>f2. Done (closed f1, f2)))"

definition GetFilename :: "File \<Rightarrow> string" where
  "GetFilename f = filename f"

definition GetMode :: "File \<Rightarrow> int" where
  "GetMode f = mode f"

definition BufferLen :: "File \<Rightarrow> (int \<times> File) run" where
  "BufferLen f =
     and_then (mutex_RLock f) (\<lambda>f1.
       and_then (mutex_RUnlock f1) (\<lambda>f2. Done (int (length (buf f1)), f2)))"

definition SetBufferSize :: "File \<Rightarrow> int \<Rightarrow> File run" where
  "SetBufferSize f sz =
     and_then (mutex_Lock f) (\<lambda>f1.
       mutex_Unlock (if sz > 0 then f1\<lparr>bufferSize := sz\<rparr> else f1))"

definition SetHandler :: "File \<Rightarrow> (string \<Rightarrow> string) option \<Rightarrow> File run" where
  "SetHandler f handler =
     and_then (mutex_Lock f) (\<lambda>f1.
       mutex_Unlock (if handler \<noteq> None then f1\<lparr>Handler := handler\<rparr> else f1))"

definition SetEncoder :: "File \<Rightarrow> (bytes \<Rightarrow> bytes) option \<Rightarrow> File run" where
  "SetEncoder f encoder =
     and_then (mutex_Lock f) (\<lambda>f1.
       mutex_Unlock (if encoder \<noteq> None then f1\<lparr>Encoder := encoder\<rparr> else f1))"

definition EnableEncoding :: "File \<Rightarrow> bool \<Rightarrow> File run" where
  "EnableEncoding f enable =
     and_then (mutex_Lock f) (\<lambda>f1. mutex_Unlock (f1\<lparr>encode := enable\<rparr>))"

subsection \<open>Well-formed writers\<close>

text \<open>
  The fields of \<open>File\<close> are private, so a writer is only ever changed by the methods
  above. They keep the following facts: the handle and the adapter are set together
  with \<open>initialized\<close>, nothing is buffered before the sink is open, and nothing is
  buffered once the writer is closed.
\<close>

definition File_ok :: "File \<Rightarrow> bool" where
  "File_ok f =
     ((case fileHandler f of
         None \<Rightarrow> \<not> initialized f \<and> fileWriter f = None \<and> buf f = []
       | Some h \<Rightarrow> initialized f \<and> fileWriter f = Some (NewWriter h))
      \<and> (if closed f then buf f = [] else True))"


text \<open>Applying a change of the writer to the writer a call returns.\<close>

fun map_File :: "(File \<Rightarrow> File) \<Rightarrow> ('a \<times> File \<times> world) run \<Rightarrow> ('a \<times> File \<times> world) run" where
  "map_File g (Done (r, f, w)) = Done (r, g f, w)"
| "map_File g Blocked = Blocked"
| "map_File g Panicked = Panicked"

subsection \<open>Observing the log\<close>

text \<open>
  What a file has received according to the log, when the adapter passes on the bytes
  of its successful writes at the next successful flush.
\<close>

fun persist :: "event list \<Rightarrow> bytes \<Rightarrow> bytes \<Rightarrow> bytes" where
  "persist [] pending stored = stored"
| "persist ((WriterWrite bw d, None) # es) pending stored = persist es (pending @ d) stored"
| "persist ((WriterFlush bw, None) # es) pending stored = persist es [] (stored @ pending)"
| "persist (e # es) pending stored = persist es pending stored"

definition sink_content :: "world \<Rightarrow> bytes" where
  "sink_content w = persist (log w) [] []"

subsection \<open>Sample sinks, encoders and writers\<close>

fun is_write :: "io_call \<Rightarrow> bool" where
  "is_write (WriterWrite bw d) = True"
| "is_write c = False"


fun is_close :: "io_call \<Rightarrow> bool" where
  "is_close (FileClose h) = True"
| "is_close c = False"

fun never :: "io_call \<Rightarrow> bool" where
  "never c = False"

text \<open>A sink on which exactly the calls in \<open>P\<close> fail.\<close>

definition failing :: "(io_call \<Rightarrow> bool) \<Rightarrow> event list \<Rightarrow> world" where
  "failing P l = \<lparr>respond = (\<lambda>h c. if P c then Some (OSError ''EIO'') else None), log = l\<rparr>"

text \<open>A sink whose adapter refuses the first write and accepts the later ones.\<close>

definition first_write_fails :: "event list \<Rightarrow> world" where
  "first_write_fails l =
     \<lparr>respond = (\<lambda>h c. if is_write c \<and> \<not> list_ex (\<lambda>e. is_write (fst e)) h
                        then Some (OSError ''EIO'') else None),
      log = l\<rparr>"

definition upper :: "bytes \<Rightarrow> bytes" where
  "upper b = map (\<lambda>c. let n = (of_char c :: nat) in if 97 \<le> n \<and> n \<le> 122 then char_of (n - 32) else c) b"

definition opened :: event where
  "opened = (OpenFile ''out.log'' ModeAppend 420, None)"

text \<open>The writer \<open>NewFile\<close> returns for the file ``out.log'', with \<open>b\<close> in its buffer.\<close>

definition sample_File :: "bytes \<Rightarrow> File" where
  "sample_File b =
     \<lparr>filename = ''out.log'', mode = ModeAppend, encode = False, lazy = False, bufferSize = 4096,
      initialized = True, closed = False, fileHandler = Some (OsFile 0),
      fileWriter = Some (NewWriter (OsFile 0)), buf = b, mutex = Unlocked,
      Handler = Some (\<lambda>s. s), Encoder = Some upper\<rparr>"

text \<open>Options that set the mode only: every other field has Go's zero value.\<close>

definition mode_only_options :: FileOptions where
  "mode_only_options =
     \<lparr>Mode = ModeAppend, Encode = False, Lazy = False, BufferSize = 0,
      Handler = None, Encoder = None\<rparr>"

definition zero_threshold_File :: File where
  "zero_threshold_File =
     \<lparr>filename = ''out.log'', mode = ModeAppend, encode = False, lazy = False, bufferSize = 0,
      initialized = True, closed = False, fileHandler = Some (OsFile 0),
      fileWriter = Some (NewWriter (OsFile 0)), buf = [], mutex = Unlocked,
      Handler = None, Encoder = None\<rparr>"

section \<open>Properties\<close>

subsection \<open>Auxiliary facts\<close>

lemmas lock_defs = with_Lock_def mutex_Lock_def mutex_Unlock_def

lemmas io_defs = os_OpenFile_def bufio_Write_def bufio_Flush_def os_File_Close_def call_def

lemma and_then_Done: "and_then r k = Done y \<Longrightarrow> \<exists>x. r = Done x \<and> k x = Done y"
  by (cases r) auto

text \<open>A method that returns found the mutex free and leaves it free.\<close>

lemma with_Lock_Done:
  "with_Lock body f w = Done (r, f1, w1) \<Longrightarrow>
     mutex f = Unlocked \<and> mutex f1 = Unlocked \<and>
     (\<exists>f2. body (f\<lparr>mutex := WLocked\<rparr>) w = Done (r, f2, w1) \<and> mutex f2 = WLocked
           \<and> f1 = f2\<lparr>mutex := Unlocked\<rparr>)"
  by (cases "body (f\<lparr>mutex := WLocked\<rparr>) w") (auto simp: lock_defs split: RWMutex.splits)

lemma flush_cases:
  "flush f w = Done (r, f1, w1) \<Longrightarrow> f1 = f \<or> f1 = f\<lparr>buf := []\<rparr>"
  by (auto simp: flush_def split: if_splits option.splits prod.splits)

lemma flush_mutex: "flush (f\<lparr>mutex := m\<rparr>) w = map_File (\<lambda>x. x\<lparr>mutex := m\<rparr>) (flush f w)"
  by (simp add: flush_def split: option.splits prod.splits)

lemma flush_success_empty:
  "flush f w = Done (None, f1, w1) \<Longrightarrow> fileHandler f \<noteq> None \<Longrightarrow> buf f1 = []"
  by (auto simp: flush_def split: if_splits option.splits prod.splits)

subsection \<open>The methods keep a writer well-formed\<close>

lemma File_ok_mutex [simp]: "File_ok (f\<lparr>mutex := m\<rparr>) = File_ok f"
  by (simp add: File_ok_def split: option.splits)

lemma flush_ok: "File_ok f \<Longrightarrow> flush f w = Done (r, f1, w1) \<Longrightarrow> File_ok f1"
  by (auto simp: File_ok_def dest!: flush_cases split: option.splits if_splits)

lemma flush_ok_empty:
  "File_ok f \<Longrightarrow> flush f w = Done (None, f1, w1) \<Longrightarrow> buf f1 = []"
proof (cases "fileHandler f")
  case None
  assume "File_ok f" "flush f w = Done (None, f1, w1)"
  with None show ?thesis by (simp add: File_ok_def flush_def)
next
  case (Some h)
  assume "flush f w = Done (None, f1, w1)"
  with Some show ?thesis by (simp add: flush_success_empty)
qed

lemma init_body_ok: "File_ok f \<Longrightarrow> init_body f w = Done (r, f1, w1) \<Longrightarrow> File_ok f1"
  by (auto simp: File_ok_def init_body_def split: option.splits if_splits prod.splits sum.splits)

lemma init_ok: "File_ok f \<Longrightarrow> init f w = Done (r, f1, w1) \<Longrightarrow> File_ok f1"
  unfolding init_def by (auto dest!: with_Lock_Done dest: init_body_ok[rotated])

lemma Sync_ok: "File_ok f \<Longrightarrow> Sync f w = Done (r, f1, w1) \<Longrightarrow> File_ok f1"
  unfolding Sync_def by (auto dest!: with_Lock_Done dest: flush_ok[rotated])

lemma Close_body_ok:
  assumes ok: "File_ok f" and eq: "Close_body f w = Done (r, f1, w1)"
  shows "File_ok f1"
proof (cases "closed f")
  case True
  with ok eq show ?thesis by (simp add: Close_body_def)
next
  case False
  with eq obtain fe f2 w2 where fl: "flush f w = Done (fe, f2, w2)"
    and rest: "(case fe of Some err \<Rightarrow> Done (Some err, f2, w2)
           | None \<Rightarrow> (case fileHandler f2 of None \<Rightarrow> Done (None, f2\<lparr>closed := True\<rparr>, w2)
               | Some h \<Rightarrow> (case os_File_Close h w2 of
                       (Some err, w3) \<Rightarrow> Done (Some (FailedToClose (filename f2) err), f2, w3)
                     | (None, w3) \<Rightarrow> Done (None, f2\<lparr>closed := True\<rparr>, w3)))) = Done (r, f1, w1)"
    by (auto simp: Close_body_def dest!: and_then_Done)
  have ok2: "File_ok f2" using flush_ok[OF ok fl] .
  show ?thesis
  proof (cases fe)
    case (Some err)
    with rest ok2 show ?thesis by simp
  next
    case None
    with fl ok have "buf f2 = []" by (simp add: flush_ok_empty)
    with ok2 have "File_ok (f2\<lparr>closed := True\<rparr>)"
      by (simp add: File_ok_def split: option.splits)
    with rest None ok2 show ?thesis
      by (auto split: option.splits prod.splits)
  qed
qed

lemma Close_ok: "File_ok f \<Longrightarrow> Close f w = Done (r, f1, w1) \<Longrightarrow> File_ok f1"
  unfolding Close_def by (auto dest!: with_Lock_Done dest: Close_body_ok[rotated])

lemma Write_body_ok:
  assumes ok: "File_ok f" and eq: "Write_body p f w = Done (r, f1, w1)"
  shows "File_ok f1"
proof (cases "closed f")
  case True
  with ok eq show ?thesis by (simp add: Write_body_def)
next
  case False
  with eq obtain ie f2 w2
    where i: "(if \<not> initialized f then init f w else Done (None, f, w)) = Done (ie, f2, w2)"
    and rest: "(case ie of Some err \<Rightarrow> Done ((0, Some err), f2, w2)
           | None \<Rightarrow>
               (let f3 = f2\<lparr>buf := buf f2 @ p\<rparr>; n = int (length p) in
                if int (length (buf f3)) \<ge> bufferSize f3 then
                  and_then (flush f3 w2) (\<lambda>(ferr, f4, w4).
                    (case ferr of
                       Some err \<Rightarrow> Done ((n, Some err), f4, w4)
                     | None \<Rightarrow> Done ((int (length p), None), f4, w4)))
                else Done ((int (length p), None), f3, w2))) = Done (r, f1, w1)"
    by (auto simp: Write_body_def dest!: and_then_Done)
  have ok2: "File_ok f2" using i ok by (auto split: if_splits dest: init_ok[rotated])
  have c2: "\<not> closed f2" and i2: "ie = None \<longrightarrow> initialized f2" using i False
    by (auto split: if_splits simp: init_def init_body_def dest!: with_Lock_Done
             split: prod.splits sum.splits)
  show ?thesis
  proof (cases ie)
    case (Some err)
    with rest ok2 show ?thesis by simp
  next
    case None
    with i2 have "initialized f2" by simp
    with ok2 c2 have ok3: "File_ok (f2\<lparr>buf := buf f2 @ p\<rparr>)"
      by (auto simp: File_ok_def split: option.splits)
    from rest None show ?thesis
      by (auto simp: Let_def ok3 split: if_splits option.splits
               dest!: and_then_Done dest: flush_ok[OF ok3])
  qed
qed

lemma Write_ok: "File_ok f \<Longrightarrow> Write f p w = Done (r, f1, w1) \<Longrightarrow> File_ok f1"
  unfolding Write_def by (auto dest!: with_Lock_Done dest: Write_body_ok[rotated])

lemma only_err_Done: "only_err r = Done (e, f1, w1) \<Longrightarrow> \<exists>n. r = Done ((n, e), f1, w1)"
  by (cases r) (auto simp: only_err_def)

lemma SafeWrite_ok: "File_ok f \<Longrightarrow> SafeWrite f s w = Done (r, f1, w1) \<Longrightarrow> File_ok f1"
  by (auto simp: SafeWrite_def WriteString_def split: option.splits
           dest!: only_err_Done dest: Write_ok)

lemma WriteLine_ok: "File_ok f \<Longrightarrow> WriteLine f s w = Done (r, f1, w1) \<Longrightarrow> File_ok f1"
  by (auto simp: WriteLine_def WriteString_def dest!: only_err_Done dest: Write_ok)

lemma WriteBytes_ok: "File_ok f \<Longrightarrow> WriteBytes f s w = Done (r, f1, w1) \<Longrightarrow> File_ok f1"
  by (auto simp: WriteBytes_def dest!: only_err_Done dest: Write_ok)

lemma SyncWrite_ok: "File_ok f \<Longrightarrow> SyncWrite f s w = Done (r, f1, w1) \<Longrightarrow> File_ok f1"
  by (auto simp: SyncWrite_def dest!: and_then_Done split: option.splits)
     (blast intro: SafeWrite_ok Sync_ok)+

lemma setters_ok:
  "File_ok f \<Longrightarrow> SetBufferSize f sz = Done f1 \<Longrightarrow> File_ok f1"
  "File_ok f \<Longrightarrow> SetHandler f hdl = Done f1 \<Longrightarrow> File_ok f1"
  "File_ok f \<Longrightarrow> SetEncoder f ecd = Done f1 \<Longrightarrow> File_ok f1"
  "File_ok f \<Longrightarrow> EnableEncoding f en = Done f1 \<Longrightarrow> File_ok f1"
  by (auto simp: SetBufferSize_def SetHandler_def SetEncoder_def EnableEncoding_def
                 mutex_Lock_def mutex_Unlock_def File_ok_def
           split: RWMutex.splits if_splits option.splits)

text \<open>Both constructors return a well-formed writer whose mutex is free.\<close>

lemma NewFile_ok:
  "NewFile dec name md enc lz w = Done (Inr f, w1) \<Longrightarrow> File_ok f \<and> mutex f = Unlocked"
  by (auto simp: NewFile_def init_def lock_defs init_body_def File_ok_def Let_def
           split: if_splits prod.splits sum.splits option.splits)

lemma NewFileWithOptions_ok:
  "NewFileWithOptions dec name opts w = Done (Inr f, w1) \<Longrightarrow> File_ok f \<and> mutex f = Unlocked"
  by (auto simp: NewFileWithOptions_def init_def lock_defs init_body_def File_ok_def Let_def
           split: if_splits prod.splits sum.splits option.splits)

subsection \<open>The sample writers are the ones the constructors return\<close>

lemma sample_File_ok: "File_ok (sample_File b)"
  by (simp add: File_ok_def sample_File_def)

lemma NewFile_sample:
  "NewFile upper ''out.log'' ModeAppend False False (failing never []) =
     Done (Inr (sample_File []), failing never [opened])"
  by (simp add: NewFile_def init_def lock_defs init_body_def io_defs failing_def
                sample_File_def opened_def)

lemma NewFileWithOptions_zero_threshold:
  "NewFileWithOptions dec ''out.log'' (Some mode_only_options) (failing never []) =
     Done (Inr zero_threshold_File, failing never [opened])"
  by (simp add: NewFileWithOptions_def mode_only_options_def zero_threshold_File_def init_def
                lock_defs init_body_def io_defs failing_def opened_def)

lemmas run_defs = Write_def Close_def Sync_def lock_defs Write_body_def Close_body_def
  flush_def io_defs failing_def first_write_fails_def sample_File_def Let_def

lemma upper_abc: "upper ''abc'' = ''ABC''"
  by code_simp

lemma Close_sample:
  "Close (sample_File ''hi'') (failing never [opened]) =
     Done (None, (sample_File [])\<lparr>closed := True\<rparr>,
       failing never [opened, (WriterWrite (NewWriter (OsFile 0)) ''hi'', None),
                      (WriterFlush (NewWriter (OsFile 0)), None), (FileClose (OsFile 0), None)])"
  by (simp add: run_defs)

subsection \<open>Writing through a lazily constructed writer\<close>

lemma Write_uninitialized_blocks:
  "\<not> closed f \<Longrightarrow> \<not> initialized f \<Longrightarrow> Write f p w = Blocked"
  by (simp add: Write_def with_Lock_def mutex_Lock_def Write_body_def init_def
           split: RWMutex.splits)

text \<open>
  C1. The claim is that the first \<open>Write\<close> on a writer constructed with \<open>lazy = true\<close>
  returns. In the code \<open>Write\<close> takes the exclusive lock and then calls \<open>init\<close>, which
  takes the same lock again; the mutex is not reentrant. So for every decoder, file name,
  mode and encode flag the lazy constructor returns an uninitialized, open writer with a
  free mutex, and the first \<open>Write\<close> of any bytes on it never returns.
\<close>

theorem lazy_first_Write_blocks:
  "\<exists>f. NewFile dec name md enc True w = Done (Inr f, w) \<and> lazy f \<and> \<not> initialized f
       \<and> \<not> closed f \<and> mutex f = Unlocked \<and> Write f p w = Blocked"
  by (simp add: NewFile_def Write_uninitialized_blocks)

subsection \<open>Writing to a closed writer\<close>

text \<open>
  C4. For every byte sequence \<open>p\<close>, \<open>Write\<close> on a closed writer (called while nobody
  holds the lock) returns the count 0 and the error ``file ... is closed'', and leaves
  the writer (its buffer and state included) and the world (so the sink) as they were.
\<close>

theorem Write_closed:
  "closed f \<Longrightarrow> mutex f = Unlocked \<Longrightarrow>
     Write f p w = Done ((0, Some (FileClosed (filename f))), f, w)"
  by (simp add: Write_def lock_defs Write_body_def)

theorem Write_closed_witness:
  "closed ((sample_File [])\<lparr>closed := True\<rparr>) \<and> mutex ((sample_File [])\<lparr>closed := True\<rparr>) = Unlocked \<and>
   Write ((sample_File [])\<lparr>closed := True\<rparr>) ''late'' (failing never [opened]) =
     Done ((0, Some (FileClosed ''out.log'')), (sample_File [])\<lparr>closed := True\<rparr>,
           failing never [opened])"
  using Write_closed [of "(sample_File [])\<lparr>closed := True\<rparr>" "''late''" "failing never [opened]"]
  by (simp add: sample_File_def)

subsection \<open>A failed flush\<close>




subsection \<open>A failed Close\<close>

text \<open>
  C3 (as amended). For every writer that is not closed, on which \<open>Close\<close> is called
  while nobody holds the lock: if the final flush fails, \<open>Close\<close> returns that error and
  the state remains non-Closed; if the flush succeeds but closing the sink handle fails,
  \<open>Close\<close> returns the wrapped error and the state remains non-Closed as well.
\<close>

theorem Close_failure_stays_open:
  assumes "\<not> closed f" and "mutex f = Unlocked"
  shows "(flush f w = Done (Some e, f1, w1) \<longrightarrow>
            Close f w = Done (Some e, f1, w1) \<and> \<not> closed f1) \<and>
         (flush f w = Done (None, f1, w1) \<and> fileHandler f1 = Some h \<and>
          os_File_Close h w1 = (Some e, w2) \<longrightarrow>
            Close f w = Done (Some (FailedToClose (filename f) e), f1, w2) \<and> \<not> closed f1)"
  using assms
  by (auto simp: Close_def lock_defs Close_body_def flush_mutex dest!: flush_cases)

text \<open>Once with a sink whose adapter refuses writes, once with one that refuses to close.\<close>

theorem Close_failure_stays_open_witness:
  "\<not> closed (sample_File ''hi'') \<and> mutex (sample_File ''hi'') = Unlocked \<and>
   flush (sample_File ''hi'') (failing is_write [opened]) =
     Done (Some (FailedToWrite ''out.log'' (OSError ''EIO'')), sample_File ''hi'',
       failing is_write
         [opened, (WriterWrite (NewWriter (OsFile 0)) ''hi'', Some (OSError ''EIO''))]) \<and>
   Close (sample_File ''hi'') (failing is_write [opened]) =
     Done (Some (FailedToWrite ''out.log'' (OSError ''EIO'')), sample_File ''hi'',
       failing is_write
         [opened, (WriterWrite (NewWriter (OsFile 0)) ''hi'', Some (OSError ''EIO''))]) \<and>
   flush (sample_File ''hi'') (failing is_close [opened]) =
     Done (None, sample_File [],
       failing is_close [opened, (WriterWrite (NewWriter (OsFile 0)) ''hi'', None),
                         (WriterFlush (NewWriter (OsFile 0)), None)]) \<and>
   fileHandler (sample_File []) = Some (OsFile 0) \<and>
   os_File_Close (OsFile 0)
       (failing is_close [opened, (WriterWrite (NewWriter (OsFile 0)) ''hi'', None),
                         (WriterFlush (NewWriter (OsFile 0)), None)]) =
     (Some (OSError ''EIO''),
       failing is_close [opened, (WriterWrite (NewWriter (OsFile 0)) ''hi'', None),
                         (WriterFlush (NewWriter (OsFile 0)), None),
                         (FileClose (OsFile 0), Some (OSError ''EIO''))]) \<and>
   Close (sample_File ''hi'') (failing is_close [opened]) =
     Done (Some (FailedToClose ''out.log'' (OSError ''EIO'')), sample_File [],
       failing is_close [opened, (WriterWrite (NewWriter (OsFile 0)) ''hi'', None),
                         (WriterFlush (NewWriter (OsFile 0)), None),
                         (FileClose (OsFile 0), Some (OSError ''EIO''))]) \<and>
   \<not> closed (sample_File [])"
  using Close_failure_stays_open
          [where f = "sample_File ''hi''" and w = "failing is_write [opened]"
             and e = "FailedToWrite ''out.log'' (OSError ''EIO'')"
             and ?f1.0 = "sample_File ''hi''"
             and ?w1.0 = "failing is_write
                 [opened, (WriterWrite (NewWriter (OsFile 0)) ''hi'', Some (OSError ''EIO''))]"]
        Close_failure_stays_open
          [where f = "sample_File ''hi''" and w = "failing is_close [opened]"
             and e = "OSError ''EIO''" and ?f1.0 = "sample_File []" and h = "OsFile 0"
             and ?w1.0 = "failing is_close
                 [opened, (WriterWrite (NewWriter (OsFile 0)) ''hi'', None),
                  (WriterFlush (NewWriter (OsFile 0)), None)]"
             and ?w2.0 = "failing is_close
                 [opened, (WriterWrite (NewWriter (OsFile 0)) ''hi'', None),
                  (WriterFlush (NewWriter (OsFile 0)), None),
                  (FileClose (OsFile 0), Some (OSError ''EIO''))]"]
  by (simp add: flush_def io_defs failing_def sample_File_def Let_def)

text \<open>
  An initialized writer holding ``hi'' on a sink that refuses to close: the flush
  succeeds, \<open>Close\<close> returns the close error, and the writer it leaves is not closed.
\<close>

theorem Close_sink_close_failure_counterexample:
  "flush (sample_File ''hi'') (failing is_close [opened]) =
     Done (None, sample_File [],
       failing is_close [opened, (WriterWrite (NewWriter (OsFile 0)) ''hi'', None),
                         (WriterFlush (NewWriter (OsFile 0)), None)]) \<and>
   Close (sample_File ''hi'') (failing is_close [opened]) =
     Done (Some (FailedToClose ''out.log'' (OSError ''EIO'')), sample_File [],
       failing is_close [opened, (WriterWrite (NewWriter (OsFile 0)) ''hi'', None),
                         (WriterFlush (NewWriter (OsFile 0)), None),
                         (FileClose (OsFile 0), Some (OSError ''EIO''))]) \<and>
   initialized (sample_File ''hi'') \<and> \<not> closed (sample_File [])"
  by (simp add: run_defs)

subsection \<open>A successful Write and the threshold\<close>

lemma Write_Done_initialized:
  assumes "Write f p w = Done ((n, None), f1, w1)"
  shows "initialized f \<and> \<not> closed f \<and> mutex f = Unlocked"
  using assms
  by (cases "initialized f"; cases "closed f"; cases "mutex f")
     (auto simp: Write_def lock_defs Write_body_def init_def)

text \<open>
  C5 (as amended). For every well-formed writer with flush threshold \<open>T\<close> and every
  successful \<open>Write(p)\<close>: the call returns the count \<open>len(p)\<close>; if the buffer length
  reached at least \<open>T\<close> after the append, an automatic flush ran before the call
  returned (one adapter write of the whole buffer, then the adapter flush, when there
  was anything to write) and the buffer is empty on return; otherwise the bytes were only
  appended and the sink was not touched. Hence the buffer length on return is strictly
  less than \<open>T\<close> whenever \<open>T\<close> is positive.
\<close>

theorem Write_success_threshold:
  assumes ok: "File_ok f" and wr: "Write f p w = Done ((n, None), f1, w1)"
  shows "n = int (length p) \<and>
         (if bufferSize f \<le> int (length (buf f @ p))
          then buf f1 = [] \<and>
               (buf f @ p \<noteq> [] \<longrightarrow>
                 (\<exists>bw data. fileWriter f = Some bw \<and>
                    (if encode f then map_option (\<lambda>enc. enc (buf f @ p)) (Encoder f)
                     else Some (buf f @ p)) = Some data \<and>
                    log w1 = log w @ [(WriterWrite bw data, None), (WriterFlush bw, None)]))
          else buf f1 = buf f @ p \<and> log w1 = log w) \<and>
         (0 < bufferSize f \<longrightarrow> int (length (buf f1)) < bufferSize f)"
proof -
  from wr have i: "initialized f" and c: "\<not> closed f" and m: "mutex f = Unlocked"
    using Write_Done_initialized by blast+
  from ok i obtain h where h: "fileHandler f = Some h" "fileWriter f = Some (NewWriter h)"
    by (auto simp: File_ok_def split: option.splits)
  from wr i c m h show ?thesis
    by (auto simp: Write_def lock_defs Write_body_def flush_def io_defs Let_def
             split: if_splits option.splits)
qed

text \<open>
  Threshold 4 with ``ab'' buffered: writing ``cd'' reaches the threshold, the flush
  runs, the buffer is empty and the file holds ``abcd''.
\<close>

theorem Write_success_threshold_witness:
  "File_ok ((sample_File ''ab'')\<lparr>bufferSize := 4\<rparr>) \<and>
   Write ((sample_File ''ab'')\<lparr>bufferSize := 4\<rparr>) ''cd'' (failing never [opened]) =
     Done ((2, None), (sample_File [])\<lparr>bufferSize := 4\<rparr>,
       failing never [opened, (WriterWrite (NewWriter (OsFile 0)) ''abcd'', None),
                      (WriterFlush (NewWriter (OsFile 0)), None)]) \<and>
   bufferSize ((sample_File ''ab'')\<lparr>bufferSize := 4\<rparr>)
     \<le> int (length (buf ((sample_File ''ab'')\<lparr>bufferSize := 4\<rparr>) @ ''cd'')) \<and>
   buf ((sample_File [])\<lparr>bufferSize := 4\<rparr>) = [] \<and>
   0 < bufferSize ((sample_File ''ab'')\<lparr>bufferSize := 4\<rparr>) \<and>
   int (length (buf ((sample_File [])\<lparr>bufferSize := 4\<rparr>)))
     < bufferSize ((sample_File ''ab'')\<lparr>bufferSize := 4\<rparr>) \<and>
   sink_content
     (failing never [opened, (WriterWrite (NewWriter (OsFile 0)) ''abcd'', None),
                     (WriterFlush (NewWriter (OsFile 0)), None)]) = ''abcd''"
  using Write_success_threshold
          [where f = "(sample_File ''ab'')\<lparr>bufferSize := 4\<rparr>" and p = "''cd''"
             and w = "failing never [opened]" and n = 2
             and ?f1.0 = "(sample_File [])\<lparr>bufferSize := 4\<rparr>"
             and ?w1.0 = "failing never
                 [opened, (WriterWrite (NewWriter (OsFile 0)) ''abcd'', None),
                  (WriterFlush (NewWriter (OsFile 0)), None)]"]
  by (simp add: run_defs File_ok_def sink_content_def opened_def)

text \<open>
  The writer that \<open>NewFileWithOptions\<close> returns for options that set the mode only has
  threshold 0. A \<open>Write\<close> of one byte succeeds, the threshold is reached and the flush
  runs, and the buffer length on return, 0, is not below the threshold.
\<close>

theorem Write_zero_threshold_counterexample:
  "Write zero_threshold_File ''a'' (failing never [opened]) =
     Done ((1, None), zero_threshold_File,
       failing never [opened, (WriterWrite (NewWriter (OsFile 0)) ''a'', None),
                      (WriterFlush (NewWriter (OsFile 0)), None)]) \<and>
   bufferSize zero_threshold_File \<le> int (length (buf zero_threshold_File @ ''a'')) \<and>
   \<not> int (length (buf zero_threshold_File)) < bufferSize zero_threshold_File"
  by (simp add: run_defs zero_threshold_File_def)

subsection \<open>Closing twice\<close>

text \<open>
  C6. \<open>Close\<close> is idempotent: for every well-formed writer, after a \<open>Close\<close> that
  returned success the writer is closed and its buffer is empty, and a second \<open>Close\<close>
  returns success and leaves the writer and the world as they are, so it performs no
  flush and no call on the sink.
\<close>

theorem Close_idempotent:
  assumes "File_ok f" and "Close f w = Done (None, f1, w1)"
  shows "closed f1 \<and> buf f1 = [] \<and> Close f1 w1 = Done (None, f1, w1)"
proof -
  from assms(2) obtain f2 where m: "mutex f = Unlocked" "mutex f1 = Unlocked"
    and b: "Close_body (f\<lparr>mutex := WLocked\<rparr>) w = Done (None, f2, w1)"
    and f1: "f1 = f2\<lparr>mutex := Unlocked\<rparr>"
    unfolding Close_def by (auto dest!: with_Lock_Done)
  have ok2: "File_ok f2" using Close_body_ok[OF _ b] assms(1) by simp
  have c2: "closed f2" using b
    by (auto simp: Close_body_def split: if_splits option.splits prod.splits
             dest!: and_then_Done)
  from ok2 c2 have "buf f2 = []" by (simp add: File_ok_def)
  with c2 f1 m show ?thesis by (simp add: Close_def lock_defs Close_body_def)
qed

theorem Close_idempotent_witness:
  "File_ok (sample_File ''hi'') \<and>
   Close (sample_File ''hi'') (failing never [opened]) =
     Done (None, (sample_File [])\<lparr>closed := True\<rparr>,
       failing never [opened, (WriterWrite (NewWriter (OsFile 0)) ''hi'', None),
                      (WriterFlush (NewWriter (OsFile 0)), None), (FileClose (OsFile 0), None)]) \<and>
   closed ((sample_File [])\<lparr>closed := True\<rparr>) \<and> buf ((sample_File [])\<lparr>closed := True\<rparr>) = [] \<and>
   Close ((sample_File [])\<lparr>closed := True\<rparr>)
      (failing never [opened, (WriterWrite (NewWriter (OsFile 0)) ''hi'', None),
                      (WriterFlush (NewWriter (OsFile 0)), None), (FileClose (OsFile 0), None)]) =
     Done (None, (sample_File [])\<lparr>closed := True\<rparr>,
       failing never [opened, (WriterWrite (NewWriter (OsFile 0)) ''hi'', None),
                      (WriterFlush (NewWriter (OsFile 0)), None), (FileClose (OsFile 0), None)])"
  using Close_idempotent [OF sample_File_ok Close_sample] sample_File_ok Close_sample
  by simp

subsection \<open>What a flush hands to the adapter\<close>

text \<open>
  C7. For every flush of a well-formed writer with a non-empty buffer and an open sink
  (and a non-nil encoder when the encode flag is set): the flush returns, and the first
  call it makes is one adapter write whose bytes are exactly the encoder applied to the
  whole buffer if the encode flag is set, and the buffer unchanged if it is not; the only
  call that can follow is the adapter flush.
\<close>

theorem flush_payload:
  assumes "File_ok f" and "fileHandler f = Some h" and "buf f \<noteq> []"
    and "encode f \<longrightarrow> Encoder f = Some enc"
  shows "\<exists>r f1 w1 res rest. flush f w = Done (r, f1, w1) \<and>
           log w1 = log w @
             (WriterWrite (NewWriter h) (if encode f then enc (buf f) else buf f), res) # rest \<and>
           (rest = [] \<or> (\<exists>res2. rest = [(WriterFlush (NewWriter h), res2)]))"
  using assms
  by (auto simp: File_ok_def flush_def io_defs Let_def split: option.splits)

text \<open>
  With the upper-casing encoder: ``abc'' is written, \<open>Sync\<close> hands ``ABC'' to the
  adapter and the file holds ``ABC''; with the flag unset the adapter gets ``abc''.
\<close>

theorem flush_payload_witness:
  "File_ok ((sample_File ''abc'')\<lparr>encode := True\<rparr>) \<and>
   fileHandler ((sample_File ''abc'')\<lparr>encode := True\<rparr>) = Some (OsFile 0) \<and>
   buf ((sample_File ''abc'')\<lparr>encode := True\<rparr>) \<noteq> [] \<and>
   encode ((sample_File ''abc'')\<lparr>encode := True\<rparr>) \<and>
   Encoder ((sample_File ''abc'')\<lparr>encode := True\<rparr>) = Some upper \<and>
   Write ((sample_File [])\<lparr>encode := True\<rparr>) ''abc'' (failing never [opened]) =
     Done ((3, None), (sample_File ''abc'')\<lparr>encode := True\<rparr>, failing never [opened]) \<and>
   flush ((sample_File ''abc'')\<lparr>encode := True\<rparr>) (failing never [opened]) =
     Done (None, (sample_File [])\<lparr>encode := True\<rparr>,
       failing never [opened, (WriterWrite (NewWriter (OsFile 0)) ''ABC'', None),
                      (WriterFlush (NewWriter (OsFile 0)), None)]) \<and>
   Sync ((sample_File ''abc'')\<lparr>encode := True\<rparr>) (failing never [opened]) =
     Done (None, (sample_File [])\<lparr>encode := True\<rparr>,
       failing never [opened, (WriterWrite (NewWriter (OsFile 0)) ''ABC'', None),
                      (WriterFlush (NewWriter (OsFile 0)), None)]) \<and>
   sink_content
     (failing never [opened, (WriterWrite (NewWriter (OsFile 0)) ''ABC'', None),
                     (WriterFlush (NewWriter (OsFile 0)), None)]) = ''ABC'' \<and>
   flush (sample_File ''abc'') (failing never [opened]) =
     Done (None, sample_File [],
       failing never [opened, (WriterWrite (NewWriter (OsFile 0)) ''abc'', None),
                      (WriterFlush (NewWriter (OsFile 0)), None)])"
  using flush_payload
          [where f = "(sample_File ''abc'')\<lparr>encode := True\<rparr>" and h = "OsFile 0"
             and enc = upper and w = "failing never [opened]"]
        flush_payload
          [where f = "sample_File ''abc''" and h = "OsFile 0"
             and enc = upper and w = "failing never [opened]"]
  by (simp add: run_defs File_ok_def sink_content_def opened_def upper_abc)

subsection \<open>The preprocessor\<close>

text \<open>
  Replacing the preprocessor of a writer changes nothing in what \<open>flush\<close>, \<open>init\<close> and
  \<open>Write\<close> do, except that the writer they return carries the replaced preprocessor:
  none of them calls it.
\<close>

lemma only_err_map_File: "only_err (map_File g r) = map_File g (only_err r)"
  by (cases r) (auto simp: only_err_def)

lemma Handler_update_last:
  "f\<lparr>Handler := g, mutex := m\<rparr> = f\<lparr>mutex := m, Handler := g\<rparr>"
  "f\<lparr>Handler := g, buf := b\<rparr> = f\<lparr>buf := b, Handler := g\<rparr>"
  by simp_all

lemma flush_Handler:
  "flush (f\<lparr>Handler := g\<rparr>) w = map_File (\<lambda>x. x\<lparr>Handler := g\<rparr>) (flush f w)"
  by (simp add: flush_def split: option.splits prod.splits)

lemma init_Handler:
  "init (f\<lparr>Handler := g\<rparr>) w = map_File (\<lambda>x. x\<lparr>Handler := g\<rparr>) (init f w)"
  by (simp add: init_def lock_defs init_body_def split: RWMutex.splits sum.splits prod.splits)

lemma with_Lock_Handler:
  assumes "\<And>f. body (f\<lparr>Handler := g\<rparr>) w = map_File (\<lambda>x. x\<lparr>Handler := g\<rparr>) (body f w)"
  shows "with_Lock body (f\<lparr>Handler := g\<rparr>) w =
           map_File (\<lambda>x. x\<lparr>Handler := g\<rparr>) (with_Lock body f w)"
proof (cases "mutex f = Unlocked")
  case False
  then show ?thesis by (simp add: lock_defs split: RWMutex.splits)
next
  case True
  show ?thesis
  proof (cases "body (f\<lparr>mutex := WLocked\<rparr>) w")
    case (Done x)
    obtain r f2 w2 where x: "x = (r, f2, w2)" by (cases x)
    from True Done x assms [of "f\<lparr>mutex := WLocked\<rparr>"] show ?thesis
      by (simp add: lock_defs Handler_update_last split: RWMutex.splits)
  next
    case Blocked
    with True assms [of "f\<lparr>mutex := WLocked\<rparr>"] show ?thesis
      by (simp add: lock_defs Handler_update_last)
  next
    case Panicked
    with True assms [of "f\<lparr>mutex := WLocked\<rparr>"] show ?thesis
      by (simp add: lock_defs Handler_update_last)
  qed
qed

lemma Write_body_Handler:
  "Write_body p (f\<lparr>Handler := g\<rparr>) w = map_File (\<lambda>x. x\<lparr>Handler := g\<rparr>) (Write_body p f w)"
proof (cases "closed f")
  case True
  then show ?thesis by (simp add: Write_body_def)
next
  case c: False
  show ?thesis
  proof (cases "initialized f")
    case False
    show ?thesis
    proof (cases "init f w")
      case (Done x)
      obtain ie f2 w2 where x: "x = (ie, f2, w2)" by (cases x)
      note fl = flush_Handler [where f = "f2\<lparr>buf := buf f2 @ p\<rparr>" and g = g and w = w2]
      show ?thesis
      proof (cases "flush (f2\<lparr>buf := buf f2 @ p\<rparr>) w2")
        case d: (Done y)
        obtain fe f3 w3 where y: "y = (fe, f3, w3)" by (cases y)
        from c False Done x d y fl show ?thesis
          by (simp add: Write_body_def init_Handler Let_def Handler_update_last
                   split: option.splits)
      next
        case Blocked
        with c False Done x fl show ?thesis
          by (simp add: Write_body_def init_Handler Let_def Handler_update_last
                   split: option.splits)
      next
        case Panicked
        with c False Done x fl show ?thesis
          by (simp add: Write_body_def init_Handler Let_def Handler_update_last
                   split: option.splits)
      qed
    next
      case Blocked
      with c False show ?thesis by (simp add: Write_body_def init_Handler)
    next
      case Panicked
      with c False show ?thesis by (simp add: Write_body_def init_Handler)
    qed
  next
    case True
    note fl = flush_Handler [where f = "f\<lparr>buf := buf f @ p\<rparr>" and g = g and w = w]
    show ?thesis
    proof (cases "flush (f\<lparr>buf := buf f @ p\<rparr>) w")
      case d: (Done y)
      obtain fe f3 w3 where y: "y = (fe, f3, w3)" by (cases y)
      from c True d y fl show ?thesis
        by (simp add: Write_body_def Let_def Handler_update_last split: option.splits)
    next
      case Blocked
      with c True fl show ?thesis
        by (simp add: Write_body_def Let_def Handler_update_last split: option.splits)
    next
      case Panicked
      with c True fl show ?thesis
        by (simp add: Write_body_def Let_def Handler_update_last split: option.splits)
    qed
  qed
qed

lemma Write_Handler:
  "Write (f\<lparr>Handler := g\<rparr>) p w = map_File (\<lambda>x. x\<lparr>Handler := g\<rparr>) (Write f p w)"
  unfolding Write_def by (rule with_Lock_Handler) (rule Write_body_Handler)

text \<open>
  C8. For every string \<open>s\<close>, \<open>SafeWrite(s)\<close> with preprocessor \<open>h\<close> is \<open>WriteString\<close>
  applied to \<open>h s\<close> (its count dropped). \<open>Write\<close>, \<open>WriteString\<close>, \<open>WriteBytes\<close> and
  \<open>WriteLine\<close> never apply the preprocessor: with any other preprocessor \<open>g\<close> in its
  place (nil included) they return the same result, the same world and the same writer
  but for that field. \<open>WriteLine(s)\<close> writes \<open>s\<close> followed by exactly one line feed.
\<close>

theorem SafeWrite_is_WriteString_of_Handler:
  "(Handler f = Some h \<longrightarrow> SafeWrite f s w = only_err (WriteString f (h s) w)) \<and>
   Write (f\<lparr>Handler := g\<rparr>) p w = map_File (\<lambda>x. x\<lparr>Handler := g\<rparr>) (Write f p w) \<and>
   WriteString (f\<lparr>Handler := g\<rparr>) s w = map_File (\<lambda>x. x\<lparr>Handler := g\<rparr>) (WriteString f s w) \<and>
   WriteBytes (f\<lparr>Handler := g\<rparr>) p w = map_File (\<lambda>x. x\<lparr>Handler := g\<rparr>) (WriteBytes f p w) \<and>
   WriteLine (f\<lparr>Handler := g\<rparr>) s w = map_File (\<lambda>x. x\<lparr>Handler := g\<rparr>) (WriteLine f s w) \<and>
   WriteLine f s w = only_err (WriteString f (s @ [CHR 0x0A]) w)"
  by (simp add: SafeWrite_def WriteString_def WriteBytes_def WriteLine_def Write_Handler
                only_err_map_File)

text \<open>
  With the upper-casing function as preprocessor: \<open>SafeWrite\<close> buffers ``ABC'',
  \<open>WriteString\<close> buffers ``abc'', \<open>WriteLine\<close> buffers ``abc'' and a line feed.
\<close>

theorem SafeWrite_is_WriteString_of_Handler_witness:
  "Handler ((sample_File [])\<lparr>Handler := Some upper\<rparr>) = Some upper \<and>
   SafeWrite ((sample_File [])\<lparr>Handler := Some upper\<rparr>) ''abc'' (failing never [opened]) =
     only_err (WriteString ((sample_File [])\<lparr>Handler := Some upper\<rparr>) (upper ''abc'')
                 (failing never [opened])) \<and>
   SafeWrite ((sample_File [])\<lparr>Handler := Some upper\<rparr>) ''abc'' (failing never [opened]) =
     Done (None, (sample_File ''ABC'')\<lparr>Handler := Some upper\<rparr>, failing never [opened]) \<and>
   WriteString ((sample_File [])\<lparr>Handler := Some upper\<rparr>) ''abc'' (failing never [opened]) =
     Done ((3, None), (sample_File ''abc'')\<lparr>Handler := Some upper\<rparr>, failing never [opened]) \<and>
   WriteLine ((sample_File [])\<lparr>Handler := Some upper\<rparr>) ''abc'' (failing never [opened]) =
     Done (None, (sample_File (''abc'' @ [CHR 0x0A]))\<lparr>Handler := Some upper\<rparr>,
           failing never [opened])"
  using SafeWrite_is_WriteString_of_Handler
          [where f = "(sample_File [])\<lparr>Handler := Some upper\<rparr>" and h = upper
             and s = "''abc''" and w = "failing never [opened]"]
  by (simp add: run_defs WriteString_def WriteLine_def only_err_def upper_abc)

subsection \<open>Setters\<close>



subsection \<open>Default options\<close>

text \<open>
  C10. For every file name, \<open>NewFileWithOptions\<close> with nil options does what it does
  with \<open>DefaultFileOptions()\<close> passed explicitly, and what \<open>NewFile\<close> does with the
  append mode, no encoding and no lazy opening: it opens the sink at once in mode
  \<open>ModeAppend\<close>; if that fails it returns the wrapped error and no writer, and
  otherwise a writer in append mode with threshold 4096, encoding disabled, not lazy,
  initialized, with the identity preprocessor and the default decompression encoder.
\<close>

theorem NewFileWithOptions_nil_is_default:
  "NewFileWithOptions dec name None w =
     NewFileWithOptions dec name (Some (DefaultFileOptions dec)) w \<and>
   NewFileWithOptions dec name None w = NewFile dec name ModeAppend False False w \<and>
   NewFileWithOptions dec name None w =
     (case os_OpenFile name ModeAppend 420 w of
        (Inl err, w1) \<Rightarrow>
          Done (Inl (FailedToInitialize name (FailedToOpen name ModeAppend err)), w1)
      | (Inr h, w1) \<Rightarrow>
          Done (Inr \<lparr>filename = name, mode = ModeAppend, encode = False, lazy = False,
                     bufferSize = 4096, initialized = True, closed = False,
                     fileHandler = Some h, fileWriter = Some (NewWriter h), buf = [],
                     mutex = Unlocked, Handler = Some (\<lambda>s. s), Encoder = Some dec\<rparr>, w1))"
  by (simp add: NewFileWithOptions_def NewFile_def DefaultFileOptions_def init_def lock_defs
                init_body_def split: prod.splits sum.splits)

end
